theory Spec2Isabelle
  imports Main
begin

section \<open>Noise reduction of DLO-HiC pairs: fragment mapping and classification\<close>

text \<open>
  A shallow embedding of \<^verbatim>\<open>dlo_hic/tools/main_process/noise_reduce.py\<close>:
  \<^verbatim>\<open>find_frag\<close>, \<^verbatim>\<open>bedpe_type\<close> and the per-chunk loop of \<^verbatim>\<open>worker\<close>.
  Python integers are \<open>int\<close>; positions held in a numpy array are far below the range
  of a 64-bit integer, so no wrap-around is modelled. Exceptions are values of
  \<open>py_error\<close>, returned on the left of a sum.
\<close>

subsection \<open>Errors and library routines\<close>

datatype py_error = AssertionError | IndexError | KeyError string | TypeError

text \<open>
  Indexing a one-dimensional array with an integer, as numpy and Python do: a negative
  index counts from the end, and an index outside \<open>-n \<le> i < n\<close> raises IndexError.
\<close>

definition getitem :: "int list \<Rightarrow> int \<Rightarrow> py_error + int" where
  "getitem a i =
     (let n = int (length a); j = (if i < 0 then n + i else i)
      in if 0 \<le> j \<and> j < n then Inr (a ! nat j) else Inl IndexError)"

text \<open>
  \<^verbatim>\<open>a.searchsorted(v, side='right')\<close> for a single key: numpy's bisection over the
  whole array, moving the lower bound past the probe whenever the probed element is
  \<open>\<le> v\<close>. On an ascending array the result is the number of elements \<open>\<le> v\<close>.
\<close>

function bsearch_right :: "int list \<Rightarrow> int \<Rightarrow> nat \<Rightarrow> nat \<Rightarrow> nat" where
  "bsearch_right a v min_idx max_idx =
     (if min_idx < max_idx then
        (let mid_idx = min_idx + (max_idx - min_idx) div 2
         in if a ! mid_idx \<le> v then bsearch_right a v (mid_idx + 1) max_idx
            else bsearch_right a v min_idx mid_idx)
      else min_idx)"
  by pat_completeness auto
termination
  by (relation "measure (\<lambda>(a, v, min_idx, max_idx). max_idx - min_idx)") auto

declare bsearch_right.simps [simp del]

definition searchsorted_right :: "int list \<Rightarrow> int \<Rightarrow> nat" where
  "searchsorted_right a v = bsearch_right a v 0 (length a)"

subsection \<open>find_frag\<close>

text \<open>
  A fragment reference is the pair \<^verbatim>\<open>(frag_idx, pos)\<close> with \<^verbatim>\<open>pos\<close> one of the
  characters \<^verbatim>\<open>'s'\<close> and \<^verbatim>\<open>'e'\<close>. The three array reads at the head of each branch
  are evaluated before the tests on the index, as in the source, so an index equal to
  the length of the array raises IndexError there.
\<close>

type_synonym frag = "int \<times> char"

definition find_frag :: "int list \<Rightarrow> int \<Rightarrow> int \<Rightarrow> int \<Rightarrow> py_error + frag" where
  "find_frag rest_sites start end' rest_site_len =
     (let end_search_point = end' - rest_site_len - 1 in
      if \<not> start < end_search_point then Inl AssertionError
      else
        let sites = rest_sites;
            mid = (start + end') div 2;
            frag_idx_s = int (searchsorted_right sites start);
            frag_idx_e = int (searchsorted_right sites end_search_point)
        in
          if frag_idx_s = frag_idx_e then
            (let frag_idx = frag_idx_s in
             case getitem sites (frag_idx - 1) of Inl err \<Rightarrow> Inl err
             | Inr frag_start \<Rightarrow>
             (case getitem sites frag_idx of Inl err \<Rightarrow> Inl err
              | Inr frag_end \<Rightarrow>
                Inr (frag_idx,
                     if frag_idx = 0 then CHR ''e''
                     else if frag_idx = int (length sites) then CHR ''s''
                     else
                       (let left_span = mid - frag_start;
                            right_span = frag_end - mid
                        in if left_span < right_span then CHR ''s'' else CHR ''e''))))
          else
            (case getitem sites (frag_idx_s - 1) of Inl err \<Rightarrow> Inl err
             | Inr frag_start \<Rightarrow>
             (case getitem sites frag_idx_s of Inl err \<Rightarrow> Inl err
              | Inr mid_frag_pos \<Rightarrow>
              (case getitem sites frag_idx_e of Inl err \<Rightarrow> Inl err
               | Inr frag_end \<Rightarrow>
                 Inr (if frag_idx_s = 0 then (frag_idx_s, CHR ''e'')
                      else if frag_idx_e = int (length sites) then (frag_idx_e, CHR ''s'')
                      else
                        (let left_span = start - frag_start;
                             right_span = frag_end - end_search_point - 1
                         in if left_span < right_span then (frag_idx_s, CHR ''s'')
                            else (frag_idx_e, CHR ''e'')))))))"

subsection \<open>bedpe_type\<close>

text \<open>
  A parsed pair record: the six leading fields that \<^verbatim>\<open>bedpe_items[:6]\<close> unpacks, and
  the remaining fields, which the classifier never reads, kept as the text that
  \<^verbatim>\<open>str\<close> gives for each. The restriction sites are a dictionary from chromosome
  name to the array of positions; a missing key raises KeyError.
\<close>

record bedpe_items =
  chr1 :: string
  start1 :: int
  end1 :: int
  chr2 :: string
  start2 :: int
  end2 :: int
  passthrough :: "string list"

definition dict_getitem :: "(string \<rightharpoonup> int list) \<Rightarrow> string \<Rightarrow> py_error + int list" where
  "dict_getitem d k = (case d k of None \<Rightarrow> Inl (KeyError k) | Some v \<Rightarrow> Inr v)"

text \<open>
  The arguments of each call are evaluated left to right, so a lookup of the chromosome
  precedes the mapping of that end, and the first end is mapped before the second
  chromosome is looked up. In the same-chromosome short-circuit the source repeats the
  test on the sentinel; were the inner test to fail, the function would fall off its
  end and return \<^verbatim>\<open>None\<close>, which the caller's unpacking into three names rejects with
  TypeError.
\<close>

definition bedpe_type ::
  "(string \<rightharpoonup> int list) \<Rightarrow> bedpe_items \<Rightarrow> int \<Rightarrow> int \<Rightarrow>
     py_error + (string \<times> frag option \<times> frag option)" where
  "bedpe_type rest_sites items threshold_span rest_site_len =
     (if chr1 items \<noteq> chr2 items then
        (if threshold_span \<noteq> - 1 then Inr (''normal'', None, None)
         else
           (case dict_getitem rest_sites (chr1 items) of Inl err \<Rightarrow> Inl err
            | Inr sites1 \<Rightarrow>
            (case find_frag sites1 (start1 items) (end1 items) rest_site_len of
               Inl err \<Rightarrow> Inl err
             | Inr frag1 \<Rightarrow>
             (case dict_getitem rest_sites (chr2 items) of Inl err \<Rightarrow> Inl err
              | Inr sites2 \<Rightarrow>
              (case find_frag sites2 (start2 items) (end2 items) rest_site_len of
                 Inl err \<Rightarrow> Inl err
               | Inr frag2 \<Rightarrow> Inr (''normal'', Some frag1, Some frag2))))))
      else
        (let span = \<bar>start1 items - start2 items\<bar> in
         if span > threshold_span \<and> threshold_span \<noteq> - 1 then
           (if threshold_span \<noteq> - 1 then Inr (''normal'', None, None)
            else Inl TypeError)
         else
           (case dict_getitem rest_sites (chr1 items) of Inl err \<Rightarrow> Inl err
            | Inr sites \<Rightarrow>
            (case find_frag sites (start1 items) (end1 items) rest_site_len of
               Inl err \<Rightarrow> Inl err
             | Inr frag1 \<Rightarrow>
             (case find_frag sites (start2 items) (end2 items) rest_site_len of
                Inl err \<Rightarrow> Inl err
              | Inr frag2 \<Rightarrow>
                if fst frag1 = fst frag2 then
                  Inr (''self-ligation'', Some frag1, Some frag2)
                else if fst frag2 - fst frag1 = 1 \<and> snd frag2 = CHR ''s''
                        \<and> snd frag1 = CHR ''e'' then
                  Inr (''re-ligation'', Some frag1, Some frag2)
                else Inr (''normal'', Some frag1, Some frag2))))))"

text \<open>The same record with its two ends exchanged.\<close>

definition swap_ends :: "bedpe_items \<Rightarrow> bedpe_items" where
  "swap_ends items =
     items\<lparr>chr1 := chr2 items, start1 := start2 items, end1 := end2 items,
           chr2 := chr1 items, start2 := start1 items, end2 := end1 items\<rparr>"

subsection \<open>The worker's loop over a chunk\<close>

text \<open>
  Decimal text of an integer, as \<^verbatim>\<open>str\<close> and \<^verbatim>\<open>"{}".format\<close> give it, and
  \<^verbatim>\<open>sep.join\<close>.
\<close>

function str_nat :: "nat \<Rightarrow> string" where
  "str_nat n =
     (if n < 10 then [''0123456789'' ! n]
      else str_nat (n div 10) @ [''0123456789'' ! (n mod 10)])"
  by pat_completeness auto
termination
  by (relation "measure id") auto

declare str_nat.simps [simp del]

definition str_int :: "int \<Rightarrow> string" where
  "str_int i = (if i < 0 then CHR ''-'' # str_nat (nat (- i)) else str_nat (nat i))"

fun join :: "string \<Rightarrow> string list \<Rightarrow> string" where
  "join sep [] = []"
| "join sep [x] = x"
| "join sep (x # y # ys) = x @ sep @ join sep (y # ys)"

definition items_str :: "bedpe_items \<Rightarrow> string list" where
  "items_str items =
     [chr1 items, str_int (start1 items), str_int (end1 items),
      chr2 items, str_int (start2 items), str_int (end2 items)] @ passthrough items"

text \<open>
  What the worker owns while it runs: the lines written so far to its three output
  files, the local counts \<^verbatim>\<open>[normal, sel, re]\<close>, and the warnings it has logged.
  The text of a logged KeyError is the key between single quotes.
\<close>

record worker_state =
  output_f :: "string list"
  err_sel_f :: "string list"
  err_re_f :: "string list"
  l_counts :: "nat list"
  log_warning :: "string list"

definition str_KeyError :: "string \<Rightarrow> string" where
  "str_KeyError k = [CHR 0x27] @ k @ [CHR 0x27]"

text \<open>
  One pass of the body of \<^verbatim>\<open>for items in chunk\<close>. Only KeyError is caught; any
  other exception leaves the loop and ends the worker. Formatting the annotation reads
  both fragments once the first is present, so a missing second fragment would raise
  TypeError. A type that is none of the three names writes nothing.
\<close>

definition worker_item ::
  "(string \<rightharpoonup> int list) \<Rightarrow> int \<Rightarrow> int \<Rightarrow> worker_state \<Rightarrow> bedpe_items \<Rightarrow>
     py_error + worker_state" where
  "worker_item rest_sites rest_site_len threshold_span st items =
     (case bedpe_type rest_sites items threshold_span rest_site_len of
        Inl err \<Rightarrow>
          (case err of
             KeyError k \<Rightarrow> Inr (st\<lparr>log_warning := log_warning st @ [str_KeyError k]\<rparr>)
           | _ \<Rightarrow> Inl err)
      | Inr (type', frag1, frag2) \<Rightarrow>
          (let out_line = join [CHR 0x09] (items_str items) in
           case (case frag1 of
                   None \<Rightarrow> Inr out_line
                 | Some f1 \<Rightarrow>
                     (case frag2 of
                        None \<Rightarrow> Inl TypeError
                      | Some f2 \<Rightarrow>
                          Inr (out_line @ [CHR 0x09] @ str_int (fst f1) @ ''-'' @ [snd f1]
                                 @ [CHR 0x09] @ str_int (fst f2) @ ''-'' @ [snd f2]))) of
             Inl err \<Rightarrow> Inl err
           | Inr out_line1 \<Rightarrow>
               (let out_line2 = out_line1 @ [CHR 0x0A] in
                if type' = ''normal'' then
                  Inr (st\<lparr>output_f := output_f st @ [out_line2],
                          l_counts := (l_counts st)[0 := l_counts st ! 0 + 1]\<rparr>)
                else if type' = ''self-ligation'' then
                  Inr (st\<lparr>err_sel_f := err_sel_f st @ [out_line2],
                          l_counts := (l_counts st)[1 := l_counts st ! 1 + 1]\<rparr>)
                else if type' = ''re-ligation'' then
                  Inr (st\<lparr>err_re_f := err_re_f st @ [out_line2],
                          l_counts := (l_counts st)[2 := l_counts st ! 2 + 1]\<rparr>)
                else Inr st)))"

fun worker_chunk ::
  "(string \<rightharpoonup> int list) \<Rightarrow> int \<Rightarrow> int \<Rightarrow> worker_state \<Rightarrow> bedpe_items list \<Rightarrow>
     py_error + worker_state" where
  "worker_chunk rest_sites rest_site_len threshold_span st [] = Inr st"
| "worker_chunk rest_sites rest_site_len threshold_span st (items # chunk) =
     (case worker_item rest_sites rest_site_len threshold_span st items of
        Inl err \<Rightarrow> Inl err
      | Inr st' \<Rightarrow> worker_chunk rest_sites rest_site_len threshold_span st' chunk)"

text \<open>The state a worker starts from: nothing written, \<^verbatim>\<open>l_counts = [0, 0, 0]\<close>.\<close>

definition worker_init :: worker_state where
  "worker_init =
     \<lparr>output_f = [], err_sel_f = [], err_re_f = [], l_counts = [0, 0, 0], log_warning = []\<rparr>"

section \<open>Properties\<close>

subsection \<open>The bisection on ascending arrays\<close>

text \<open>
  The search never leaves its window, and on an ascending array it returns the insertion
  point to the right of every element \<open>\<le> v\<close>.
\<close>


lemma bsearch_right_le: "min_idx \<le> max_idx \<Longrightarrow> bsearch_right a v min_idx max_idx \<le> max_idx"
proof (induction a v min_idx max_idx rule: bsearch_right.induct)
  case (1 a v lo hi)
  show ?case
  proof (cases "lo < hi")
    case False
    with "1.prems" show ?thesis by (simp add: bsearch_right.simps)
  next
    case True
    define m where "m = lo + (hi - lo) div 2"
    have m: "lo \<le> m" "m < hi" using True by (auto simp: m_def)
    show ?thesis
    proof (cases "a ! m \<le> v")
      case le: True
      have "bsearch_right a v (m + 1) hi \<le> hi"
        using "1.IH"(1)[OF True m_def le] m by simp
      then show ?thesis
        using True le by (subst bsearch_right.simps) (simp add: m_def Let_def)
    next
      case gt: False
      have "bsearch_right a v lo m \<le> m"
        using "1.IH"(2)[OF True m_def gt] m by simp
      then show ?thesis
        using True gt m by (subst bsearch_right.simps) (simp add: m_def Let_def)
    qed
  qed
qed

lemma bsearch_right_sorted:
  "sorted a \<Longrightarrow> min_idx \<le> max_idx \<Longrightarrow> max_idx \<le> length a \<Longrightarrow>
   (\<forall>i<min_idx. a ! i \<le> v) \<Longrightarrow> (\<forall>i. max_idx \<le> i \<and> i < length a \<longrightarrow> v < a ! i) \<Longrightarrow>
   (\<forall>i<bsearch_right a v min_idx max_idx. a ! i \<le> v) \<and>
   (\<forall>i. bsearch_right a v min_idx max_idx \<le> i \<and> i < length a \<longrightarrow> v < a ! i)"
proof (induction a v min_idx max_idx rule: bsearch_right.induct)
  case (1 a v lo hi)
  show ?case
  proof (cases "lo < hi")
    case False
    with "1.prems" show ?thesis by (simp add: bsearch_right.simps)
  next
    case True
    define m where "m = lo + (hi - lo) div 2"
    have m: "lo \<le> m" "m < hi" using True by (auto simp: m_def)
    have mlen: "m < length a" using m "1.prems"(3) by simp
    show ?thesis
    proof (cases "a ! m \<le> v")
      case le: True
      have below: "\<forall>i<m + 1. a ! i \<le> v"
      proof (intro allI impI)
        fix i assume "i < m + 1"
        then have "a ! i \<le> a ! m"
          using sorted_nth_mono[OF "1.prems"(1), of i m] mlen by simp
        with le show "a ! i \<le> v" by simp
      qed
      have "(\<forall>i<bsearch_right a v (m + 1) hi. a ! i \<le> v) \<and>
            (\<forall>i. bsearch_right a v (m + 1) hi \<le> i \<and> i < length a \<longrightarrow> v < a ! i)"
        using "1.IH"(1)[OF True m_def le "1.prems"(1) _ "1.prems"(3) below "1.prems"(5)] m
        by simp
      moreover have "bsearch_right a v lo hi = bsearch_right a v (m + 1) hi"
        using True le by (subst bsearch_right.simps) (simp add: m_def Let_def)
      ultimately show ?thesis by simp
    next
      case gt: False
      have above: "\<forall>i. m \<le> i \<and> i < length a \<longrightarrow> v < a ! i"
      proof (intro allI impI)
        fix i assume "m \<le> i \<and> i < length a"
        then have "a ! m \<le> a ! i"
          using sorted_nth_mono[OF "1.prems"(1), of m i] by simp
        with gt show "v < a ! i" by simp
      qed
      have "(\<forall>i<bsearch_right a v lo m. a ! i \<le> v) \<and>
            (\<forall>i. bsearch_right a v lo m \<le> i \<and> i < length a \<longrightarrow> v < a ! i)"
        using "1.IH"(2)[OF True m_def gt "1.prems"(1) m(1) _ "1.prems"(4) above] mlen
        by simp
      moreover have "bsearch_right a v lo hi = bsearch_right a v lo m"
        using True gt by (subst bsearch_right.simps) (simp add: m_def Let_def)
      ultimately show ?thesis by simp
    qed
  qed
qed

lemma searchsorted_right_le_length: "searchsorted_right a v \<le> length a"
  unfolding searchsorted_right_def by (rule bsearch_right_le) simp

lemma searchsorted_right_sorted:
  assumes "sorted a"
  shows "\<forall>i<searchsorted_right a v. a ! i \<le> v"
    and "\<forall>i. searchsorted_right a v \<le> i \<and> i < length a \<longrightarrow> v < a ! i"
  using bsearch_right_sorted[OF assms, of 0 "length a" v]
  unfolding searchsorted_right_def by simp_all

lemma searchsorted_right_below_first:
  assumes "sorted a" and "a \<noteq> []" and "v < hd a"
  shows "searchsorted_right a v = 0"
proof (rule ccontr)
  assume "searchsorted_right a v \<noteq> 0"
  then have "a ! 0 \<le> v" using searchsorted_right_sorted(1)[OF assms(1), of v] by simp
  with assms(2,3) show False by (simp add: hd_conv_nth)
qed

lemma searchsorted_right_beyond_last:
  assumes "sorted a" and "a \<noteq> []" and "last a \<le> v"
  shows "searchsorted_right a v = length a"
proof (rule ccontr)
  assume ne: "searchsorted_right a v \<noteq> length a"
  with searchsorted_right_le_length[of a v] have lt: "searchsorted_right a v < length a" by simp
  then have "length a - 1 < length a" "searchsorted_right a v \<le> length a - 1" by simp_all
  then have "v < a ! (length a - 1)"
    using searchsorted_right_sorted(2)[OF assms(1), of v] by blast
  with assms(2,3) show False by (simp add: last_conv_nth)
qed

subsection \<open>Array reads\<close>

lemma getitem_length: "getitem a (int (length a)) = Inl IndexError"
  by (simp add: getitem_def)

lemma getitem_minus_one: "a \<noteq> [] \<Longrightarrow> getitem a (- 1) = Inr (last a)"
  by (simp add: getitem_def last_conv_nth nat_diff_distrib')

lemma getitem_Inr_lt: "getitem a i = Inr x \<Longrightarrow> 0 \<le> i \<Longrightarrow> i < int (length a)"
  by (simp add: getitem_def split: if_splits)

lemma getitem_not_other:
  "getitem a i \<noteq> Inl TypeError" "getitem a i \<noteq> Inl (KeyError k)"
  "getitem a i \<noteq> Inl AssertionError"
  by (simp_all add: getitem_def Let_def)

subsection \<open>What find_frag can return\<close>

text \<open>
  A returned index is always that of an existing site: the index \<open>length sites\<close> of the
  two branches that give \<^verbatim>\<open>'s'\<close> for an interval beyond the last site is never
  returned, because the array is read at that index first. The side is one of the two
  characters, and the only exceptions are the failed assertion and the failed read.
\<close>

lemma find_frag_index_in_range:
  assumes "find_frag sites start end' rest_site_len = Inr (frag_idx, pos)"
  shows "0 \<le> frag_idx \<and> frag_idx < int (length sites)"
  using assms
  by (auto simp: find_frag_def Let_def split: if_splits sum.splits dest!: getitem_Inr_lt)

lemma find_frag_pos:
  assumes "find_frag sites start end' rest_site_len = Inr (frag_idx, pos)"
  shows "pos = CHR ''s'' \<or> pos = CHR ''e''"
  using assms
  by (auto simp: find_frag_def Let_def split: if_splits sum.splits)

lemma find_frag_errors:
  assumes "find_frag sites start end' rest_site_len = Inl err"
  shows "err = AssertionError \<or> err = IndexError"
  using assms
  by (auto simp: find_frag_def getitem_def Let_def split: if_splits sum.splits)

subsection \<open>find_frag: the claims\<close>

text \<open>
  Claim C2, as amended. With sites \<open>[100, 200, 300]\<close> and \<open>rest_site_len = 10\<close>, the
  interval \<open>(start = 150, end = 160)\<close> does not pass the assertion
  \<open>start < end - rest_site_len - 1\<close> (that is \<open>150 < 149\<close>), so find_frag raises
  AssertionError and returns no fragment. The interval \<open>(start = 140, end = 170)\<close>, which
  has the same midpoint 155 and passes the assertion, gives fragment index 1 with side
  End: the midpoint is 55 from site 100 and 45 from site 200.
\<close>

theorem find_frag_scenario_amended:
  "find_frag [100, 200, 300] 150 160 10 = Inl AssertionError \<and>
   find_frag [100, 200, 300] 140 170 10 = Inr (1, CHR ''e'')"
  by code_simp

text \<open>
  Claim C2 as stated fails: on the interval \<open>(150, 160)\<close> the result is not fragment 1
  with side End.
\<close>

theorem find_frag_scenario_counterexample:
  "find_frag [100, 200, 300] 150 160 10 \<noteq> Inr (1, CHR ''e'')"
  by code_simp

text \<open>
  Claim C3 asks that an interval lying fully right of the last site of a non-empty
  ascending array, with \<open>start < end - rest_site_len - 1\<close>, be given index
  \<open>length sites\<close> and side Start. The code does not do so: both insertion points are
  \<open>length sites\<close>, and the read \<^verbatim>\<open>frag_end = sites[frag_idx]\<close> ahead of the test
  \<^verbatim>\<open>frag_idx == sites.shape[0]\<close> raises IndexError on every such input.
\<close>

theorem find_frag_right_of_last_site_raises:
  assumes "sorted sites" and "sites \<noteq> []"
    and "start < end' - rest_site_len - 1"
    and "last sites \<le> start" and "last sites \<le> end' - rest_site_len - 1"
  shows "find_frag sites start end' rest_site_len = Inl IndexError"
proof -
  have s: "searchsorted_right sites start = length sites"
    using assms(1,2,4) by (rule searchsorted_right_beyond_last)
  have e: "searchsorted_right sites (end' - rest_site_len - 1) = length sites"
    using assms(1,2,5) by (rule searchsorted_right_beyond_last)
  have g1: "getitem sites (int (length sites) - 1) = Inr (last sites)"
    using assms(2) by (simp add: getitem_def last_conv_nth nat_diff_distrib')
  show ?thesis
    using assms(3) by (simp add: find_frag_def s e g1 getitem_length)
qed

theorem find_frag_right_of_last_site_raises_witness:
  "sorted [100, 200, 300::int] \<and> [100, 200, 300::int] \<noteq> [] \<and>
   (400::int) < 450 - 10 - 1 \<and> last [100, 200, 300] \<le> (400::int) \<and>
   last [100, 200, 300] \<le> (450::int) - 10 - 1 \<and>
   find_frag [100, 200, 300] 400 450 10 = Inl IndexError"
proof -
  have h1: "sorted [100, 200, 300::int]" by simp
  have h2: "[100, 200, 300::int] \<noteq> []" by simp
  have h3: "(400::int) < 450 - 10 - 1" by simp
  have h4: "last [100, 200, 300] \<le> (400::int)" by simp
  have h5: "last [100, 200, 300] \<le> (450::int) - 10 - 1" by simp
  from find_frag_right_of_last_site_raises[OF h1 h2 h3 h4 h5] h1 h2 h3 h4 h5
  show ?thesis by simp
qed

text \<open>
  Claim C4. On a non-empty ascending array, an interval with
  \<open>start < end - rest_site_len - 1\<close> whose two search points are both strictly below
  the first site is given fragment index 0 with side End. (The read
  \<^verbatim>\<open>sites[frag_idx - 1]\<close> is \<^verbatim>\<open>sites[-1]\<close> here, the last site, and succeeds.)
\<close>

theorem find_frag_left_of_first_site:
  assumes "sorted sites" and "sites \<noteq> []"
    and "start < end' - rest_site_len - 1"
    and "start < hd sites" and "end' - rest_site_len - 1 < hd sites"
  shows "find_frag sites start end' rest_site_len = Inr (0, CHR ''e'')"
proof -
  have s: "searchsorted_right sites start = 0"
    using assms(1,2,4) by (rule searchsorted_right_below_first)
  have e: "searchsorted_right sites (end' - rest_site_len - 1) = 0"
    using assms(1,2,5) by (rule searchsorted_right_below_first)
  have g0: "getitem sites 0 = Inr (sites ! 0)"
    using assms(2) by (simp add: getitem_def)
  show ?thesis
    using assms(3) by (simp add: find_frag_def s e g0 getitem_minus_one[OF assms(2)])
qed

theorem find_frag_left_of_first_site_witness:
  "sorted [100, 200, 300::int] \<and> [100, 200, 300::int] \<noteq> [] \<and>
   (10::int) < 50 - 10 - 1 \<and> (10::int) < hd [100, 200, 300] \<and>
   (50::int) - 10 - 1 < hd [100, 200, 300] \<and>
   find_frag [100, 200, 300] 10 50 10 = Inr (0, CHR ''e'')"
proof -
  have h1: "sorted [100, 200, 300::int]" by simp
  have h2: "[100, 200, 300::int] \<noteq> []" by simp
  have h3: "(10::int) < 50 - 10 - 1" by simp
  have h4: "(10::int) < hd [100, 200, 300]" by simp
  have h5: "(50::int) - 10 - 1 < hd [100, 200, 300]" by simp
  from find_frag_left_of_first_site[OF h1 h2 h3 h4 h5] h1 h2 h3 h4 h5
  show ?thesis by simp
qed

text \<open>
  Claim C8. When the assertion holds and the two insertion points are the same index
  \<open>idx\<close> with \<open>0 < idx < length sites\<close>, find_frag returns that index, and the side
  is Start exactly when \<open>mid - sites[idx - 1] < sites[idx] - mid\<close> for
  \<open>mid = (start + end) // 2\<close>, and End otherwise; equal distances give End.
\<close>

theorem find_frag_same_gap_side:
  assumes "start < end' - rest_site_len - 1"
    and "searchsorted_right sites start = idx"
    and "searchsorted_right sites (end' - rest_site_len - 1) = idx"
    and "0 < idx" and "idx < length sites"
  shows "\<exists>pos. find_frag sites start end' rest_site_len = Inr (int idx, pos) \<and>
           (pos = CHR ''s'' \<or> pos = CHR ''e'') \<and>
           (pos = CHR ''s'' \<longleftrightarrow>
              (start + end') div 2 - sites ! (idx - 1) < sites ! idx - (start + end') div 2) \<and>
           ((start + end') div 2 - sites ! (idx - 1) = sites ! idx - (start + end') div 2
              \<longrightarrow> pos = CHR ''e'')"
proof -
  have g1: "getitem sites (int idx - 1) = Inr (sites ! (idx - 1))"
    using assms(4,5) by (simp add: getitem_def nat_diff_distrib')
  have g2: "getitem sites (int idx) = Inr (sites ! idx)"
    using assms(5) by (simp add: getitem_def)
  show ?thesis
    using assms(1,4,5) by (simp add: find_frag_def assms(2,3) g1 g2 Let_def)
qed

theorem find_frag_same_gap_side_witness:
  "(140::int) < 160 - 0 - 1 \<and> searchsorted_right [100, 200] 140 = 1 \<and>
   searchsorted_right [100, 200] (160 - 0 - 1) = 1 \<and>
   (140 + 160) div 2 - [100, 200] ! (1 - 1) = [100, 200] ! 1 - (140 + 160) div (2::int) \<and>
   find_frag [100, 200] 140 160 0 = Inr (1, CHR ''e'')"
proof -
  have a: "(140::int) < 160 - 0 - 1" by simp
  have b: "searchsorted_right [100, 200] 140 = 1" by code_simp
  have c: "searchsorted_right [100, 200] (160 - 0 - 1) = 1" by code_simp
  have d: "0 < (1::nat)" "(1::nat) < length [100, 200::int]" by simp_all
  have t: "(140 + 160) div 2 - [100, 200] ! (1 - 1) = [100, 200] ! 1 - (140 + 160) div (2::int)"
    by simp
  from find_frag_same_gap_side[OF a b c d] t a b c show ?thesis by auto
qed

subsection \<open>bedpe_type: the claims\<close>

lemma swap_ends_simps:
  "chr1 (swap_ends items) = chr2 items" "chr2 (swap_ends items) = chr1 items"
  "start1 (swap_ends items) = start2 items" "start2 (swap_ends items) = start1 items"
  "end1 (swap_ends items) = end2 items" "end2 (swap_ends items) = end1 items"
  "passthrough (swap_ends items) = passthrough items"
  by (simp_all add: swap_ends_def)

text \<open>
  The TypeError branch of the model, the fall off the end of the function, is never
  taken, and bedpe_type raises nothing but what the lookups and find_frag raise.
\<close>

lemma bedpe_type_not_TypeError:
  "bedpe_type rest_sites items threshold_span rest_site_len \<noteq> Inl TypeError"
proof
  assume a: "bedpe_type rest_sites items threshold_span rest_site_len = Inl TypeError"
  have ff: "\<And>s a b. find_frag s a b rest_site_len \<noteq> Inl TypeError"
    using find_frag_errors by fastforce
  from a show False
    by (auto simp: bedpe_type_def dict_getitem_def Let_def ff
             split: if_splits option.splits sum.splits)
qed

text \<open>
  Claim C1. For a pair on one chromosome with neither short-circuit taken, whose
  chromosome is in the index and whose two ends find_frag maps to \<open>frag1\<close> and
  \<open>frag2\<close>, bedpe_type returns both fragments, with type \<^verbatim>\<open>'self-ligation'\<close> exactly
  when the two indices are equal, \<^verbatim>\<open>'re-ligation'\<close> exactly when
  \<open>frag2.index - frag1.index = 1\<close>, \<open>frag2\<close> has side \<^verbatim>\<open>'s'\<close> and \<open>frag1\<close> has side
  \<^verbatim>\<open>'e'\<close>, and \<^verbatim>\<open>'normal'\<close> in every other case.
\<close>

theorem bedpe_type_same_chrom_mapped:
  assumes "chr1 items = chr2 items"
    and "\<not> (\<bar>start1 items - start2 items\<bar> > threshold_span \<and> threshold_span \<noteq> - 1)"
    and "rest_sites (chr1 items) = Some sites"
    and "find_frag sites (start1 items) (end1 items) rest_site_len = Inr frag1"
    and "find_frag sites (start2 items) (end2 items) rest_site_len = Inr frag2"
  shows "\<exists>ty. bedpe_type rest_sites items threshold_span rest_site_len =
                 Inr (ty, Some frag1, Some frag2) \<and>
           (ty = ''self-ligation'' \<longleftrightarrow> fst frag1 = fst frag2) \<and>
           (ty = ''re-ligation'' \<longleftrightarrow>
              fst frag2 - fst frag1 = 1 \<and> snd frag2 = CHR ''s'' \<and> snd frag1 = CHR ''e'') \<and>
           (ty = ''normal'' \<longleftrightarrow>
              fst frag1 \<noteq> fst frag2 \<and>
              \<not> (fst frag2 - fst frag1 = 1 \<and> snd frag2 = CHR ''s'' \<and> snd frag1 = CHR ''e''))"
  using assms by (auto simp: bedpe_type_def dict_getitem_def Let_def)

theorem bedpe_type_same_chrom_mapped_witness:
  "bedpe_type [''chr1'' \<mapsto> [100, 200, 300]]
     \<lparr>chr1 = ''chr1'', start1 = 170, end1 = 195,
      chr2 = ''chr1'', start2 = 205, end2 = 230, passthrough = []\<rparr> 1000 10 =
   Inr (''re-ligation'', Some (1, CHR ''e''), Some (2, CHR ''s''))"
proof -
  let ?rs = "[''chr1'' \<mapsto> [100, 200, 300::int]]"
  let ?it = "\<lparr>chr1 = ''chr1'', start1 = 170, end1 = 195,
              chr2 = ''chr1'', start2 = 205, end2 = 230, passthrough = []\<rparr>"
  have f1: "find_frag [100, 200, 300] 170 195 10 = Inr (1, CHR ''e'')" by code_simp
  have f2: "find_frag [100, 200, 300] 205 230 10 = Inr (2, CHR ''s'')" by code_simp
  have h1: "chr1 ?it = chr2 ?it" by simp
  have h2: "\<not> (\<bar>start1 ?it - start2 ?it\<bar> > 1000 \<and> (1000::int) \<noteq> - 1)" by simp
  have h3: "?rs (chr1 ?it) = Some [100, 200, 300]" by simp
  have h4: "find_frag [100, 200, 300] (start1 ?it) (end1 ?it) 10 = Inr (1, CHR ''e'')"
    by (simp add: f1)
  have h5: "find_frag [100, 200, 300] (start2 ?it) (end2 ?it) 10 = Inr (2, CHR ''s'')"
    by (simp add: f2)
  from bedpe_type_same_chrom_mapped
         [where items = ?it and rest_sites = ?rs and sites = "[100, 200, 300]",
          OF h1 h2 h3 h4 h5]
  show ?thesis by auto
qed

text \<open>
  Claim C5. For a pair whose two chromosomes differ: when \<open>threshold_span \<noteq> -1\<close>,
  bedpe_type returns \<^verbatim>\<open>'normal'\<close> with both fragments \<^verbatim>\<open>None\<close>, whatever the index
  holds; when \<open>threshold_span = -1\<close>, it maps each end with find_frag on the sites of its
  own chromosome and, both mappings succeeding, returns \<^verbatim>\<open>'normal'\<close> with the two
  results, and whatever it returns is \<^verbatim>\<open>'normal'\<close> with both fragments those that
  find_frag gave.
\<close>

theorem bedpe_type_cross_chrom:
  assumes "chr1 items \<noteq> chr2 items"
  shows "(threshold_span \<noteq> - 1 \<longrightarrow>
            bedpe_type rest_sites items threshold_span rest_site_len =
              Inr (''normal'', None, None)) \<and>
         (threshold_span = - 1 \<longrightarrow>
            (\<forall>sites1 sites2 frag1 frag2.
               rest_sites (chr1 items) = Some sites1 \<and>
               find_frag sites1 (start1 items) (end1 items) rest_site_len = Inr frag1 \<and>
               rest_sites (chr2 items) = Some sites2 \<and>
               find_frag sites2 (start2 items) (end2 items) rest_site_len = Inr frag2 \<longrightarrow>
               bedpe_type rest_sites items threshold_span rest_site_len =
                 Inr (''normal'', Some frag1, Some frag2)) \<and>
            (\<forall>ty f1 f2.
               bedpe_type rest_sites items threshold_span rest_site_len = Inr (ty, f1, f2) \<longrightarrow>
               ty = ''normal'' \<and>
               (\<exists>sites1 frag1. rest_sites (chr1 items) = Some sites1 \<and>
                  find_frag sites1 (start1 items) (end1 items) rest_site_len = Inr frag1 \<and>
                  f1 = Some frag1) \<and>
               (\<exists>sites2 frag2. rest_sites (chr2 items) = Some sites2 \<and>
                  find_frag sites2 (start2 items) (end2 items) rest_site_len = Inr frag2 \<and>
                  f2 = Some frag2)))"
  using assms
  by (auto simp: bedpe_type_def dict_getitem_def Let_def split: option.splits sum.splits)

theorem bedpe_type_cross_chrom_witness:
  "bedpe_type [''chr1'' \<mapsto> [100, 200, 300], ''chr2'' \<mapsto> [1000, 2000]]
     \<lparr>chr1 = ''chr1'', start1 = 170, end1 = 195,
      chr2 = ''chr2'', start2 = 1200, end2 = 1230, passthrough = []\<rparr> (- 1) 10 =
   Inr (''normal'', Some (1, CHR ''e''), Some (1, CHR ''s'')) \<and>
   bedpe_type [''chr1'' \<mapsto> [100, 200, 300], ''chr2'' \<mapsto> [1000, 2000]]
     \<lparr>chr1 = ''chr1'', start1 = 170, end1 = 195,
      chr2 = ''chr2'', start2 = 1200, end2 = 1230, passthrough = []\<rparr> 1000 10 =
   Inr (''normal'', None, None)"
proof -
  let ?rs = "[''chr1'' \<mapsto> [100, 200, 300::int], ''chr2'' \<mapsto> [1000, 2000]]"
  let ?it = "\<lparr>chr1 = ''chr1'', start1 = 170, end1 = 195,
              chr2 = ''chr2'', start2 = 1200, end2 = 1230, passthrough = []\<rparr>"
  have f1: "find_frag [100, 200, 300] 170 195 10 = Inr (1, CHR ''e'')" by code_simp
  have f2: "find_frag [1000, 2000] 1200 1230 10 = Inr (1, CHR ''s'')" by code_simp
  have h: "chr1 ?it \<noteq> chr2 ?it" by simp
  have m: "?rs (chr1 ?it) = Some [100, 200, 300] \<and>
           find_frag [100, 200, 300] (start1 ?it) (end1 ?it) 10 = Inr (1, CHR ''e'') \<and>
           ?rs (chr2 ?it) = Some [1000, 2000] \<and>
           find_frag [1000, 2000] (start2 ?it) (end2 ?it) 10 = Inr (1, CHR ''s'')"
    by (simp add: f1 f2)
  have a: "bedpe_type ?rs ?it (- 1) 10 = Inr (''normal'', Some (1, CHR ''e''), Some (1, CHR ''s''))"
    using bedpe_type_cross_chrom[OF h, of "- 1" ?rs 10] m by blast
  have b: "bedpe_type ?rs ?it 1000 10 = Inr (''normal'', None, None)"
    using bedpe_type_cross_chrom[OF h, of 1000 ?rs 10] by simp
  from a b show ?thesis by simp
qed

text \<open>
  Claim C6, as amended. For a pair on one chromosome with
  \<open>|start1 - start2| > threshold_span\<close> and \<open>threshold_span \<noteq> -1\<close>, bedpe_type returns
  \<^verbatim>\<open>'normal'\<close> with both fragments \<^verbatim>\<open>None\<close>; it reads neither the index nor the
  sites, the result being the same for every \<open>rest_sites\<close>.
\<close>

theorem bedpe_type_far_apart:
  assumes "chr1 items = chr2 items"
    and "\<bar>start1 items - start2 items\<bar> > threshold_span"
    and "threshold_span \<noteq> - 1"
  shows "bedpe_type rest_sites items threshold_span rest_site_len = Inr (''normal'', None, None)"
  using assms by (simp add: bedpe_type_def)

theorem bedpe_type_far_apart_witness:
  "bedpe_type Map.empty
     \<lparr>chr1 = ''chr1'', start1 = 120, end1 = 150,
      chr2 = ''chr1'', start2 = 5000, end2 = 5030, passthrough = []\<rparr> 1000 10 =
   Inr (''normal'', None, None)"
proof -
  let ?it = "\<lparr>chr1 = ''chr1'', start1 = 120, end1 = 150,
              chr2 = ''chr1'', start2 = 5000, end2 = 5030, passthrough = []\<rparr>"
  have h1: "chr1 ?it = chr2 ?it" by simp
  have h2: "\<bar>start1 ?it - start2 ?it\<bar> > 1000" by simp
  have h3: "(1000::int) \<noteq> - 1" by simp
  from bedpe_type_far_apart[OF h1 h2 h3] show ?thesis .
qed

text \<open>
  Claim C6 as stated fails at the sentinel: with \<open>threshold_span = -1\<close> every span
  exceeds the threshold, yet both ends are mapped; here the pair is a self-ligation.
\<close>

theorem bedpe_type_far_apart_counterexample:
  "chr1 \<lparr>chr1 = ''chr1'', start1 = 120, end1 = 150,
         chr2 = ''chr1'', start2 = 140, end2 = 170, passthrough = []\<rparr> =
   chr2 \<lparr>chr1 = ''chr1'', start1 = 120, end1 = 150,
         chr2 = ''chr1'', start2 = 140, end2 = 170, passthrough = []\<rparr> \<and>
   \<bar>(120::int) - 140\<bar> > - 1 \<and>
   bedpe_type [''chr1'' \<mapsto> [100, 200, 300]]
     \<lparr>chr1 = ''chr1'', start1 = 120, end1 = 150,
      chr2 = ''chr1'', start2 = 140, end2 = 170, passthrough = []\<rparr> (- 1) 10 =
   Inr (''self-ligation'', Some (1, CHR ''s''), Some (1, CHR ''e'')) \<and>
   bedpe_type [''chr1'' \<mapsto> [100, 200, 300]]
     \<lparr>chr1 = ''chr1'', start1 = 120, end1 = 150,
      chr2 = ''chr1'', start2 = 140, end2 = 170, passthrough = []\<rparr> (- 1) 10 \<noteq>
   Inr (''normal'', None, None)"
proof -
  have f1: "find_frag [100, 200, 300] 120 150 10 = Inr (1, CHR ''s'')" by code_simp
  have f2: "find_frag [100, 200, 300] 140 170 10 = Inr (1, CHR ''e'')" by code_simp
  show ?thesis by (simp add: bedpe_type_def dict_getitem_def f1 f2)
qed

text \<open>
  Claim C10. Whenever bedpe_type returns, its two fragments are both \<^verbatim>\<open>None\<close> or
  both present.
\<close>

theorem bedpe_type_frags_both_or_none:
  assumes "bedpe_type rest_sites items threshold_span rest_site_len = Inr (ty, frag1, frag2)"
  shows "frag1 = None \<longleftrightarrow> frag2 = None"
  using assms
  by (auto simp: bedpe_type_def dict_getitem_def Let_def
           split: if_splits option.splits sum.splits)

theorem bedpe_type_frags_both_or_none_witness:
  "bedpe_type [''chr1'' \<mapsto> [100, 200, 300]]
     \<lparr>chr1 = ''chr1'', start1 = 120, end1 = 150,
      chr2 = ''chr1'', start2 = 190, end2 = 230, passthrough = []\<rparr> 1000 10 =
   Inr (''normal'', Some (1, CHR ''s''), Some (2, CHR ''e'')) \<and>
   (Some (1::int, CHR ''s'') = None \<longleftrightarrow> Some (2::int, CHR ''e'') = None)"
proof -
  have f1: "find_frag [100, 200, 300] 120 150 10 = Inr (1, CHR ''s'')" by code_simp
  have f2: "find_frag [100, 200, 300] 190 230 10 = Inr (2, CHR ''e'')" by code_simp
  have r: "bedpe_type [''chr1'' \<mapsto> [100, 200, 300]]
     \<lparr>chr1 = ''chr1'', start1 = 120, end1 = 150,
      chr2 = ''chr1'', start2 = 190, end2 = 230, passthrough = []\<rparr> 1000 10 =
   Inr (''normal'', Some (1, CHR ''s''), Some (2, CHR ''e''))"
    by (simp add: bedpe_type_def dict_getitem_def f1 f2)
  from r bedpe_type_frags_both_or_none[OF r] show ?thesis by simp
qed

text \<open>
  The worker's formatting relies on this: its read of the second fragment never fails.
\<close>

lemma worker_item_not_TypeError:
  "worker_item rest_sites rest_site_len threshold_span st items \<noteq> Inl TypeError"
proof
  assume a: "worker_item rest_sites rest_site_len threshold_span st items = Inl TypeError"
  show False
  proof (cases "bedpe_type rest_sites items threshold_span rest_site_len")
    case (Inl err)
    with a bedpe_type_not_TypeError[of rest_sites items threshold_span rest_site_len]
    show False by (cases err) (simp_all add: worker_item_def)
  next
    case (Inr r)
    obtain ty frag1 frag2 where r: "r = (ty, frag1, frag2)" by (cases r)
    have "frag1 = None \<longleftrightarrow> frag2 = None"
      using Inr r
      by (auto simp: bedpe_type_def dict_getitem_def Let_def
               split: if_splits option.splits sum.splits)
    with a Inr r show False
      by (auto simp: worker_item_def Let_def split: option.splits if_splits)
  qed
qed

text \<open>
  Claim C9, as amended. If bedpe_type returns on a pair, it returns on the pair with
  its two ends exchanged, with the two fragments exchanged. The exchanged pair is a
  self-ligation exactly when the pair is; a pair classified without mapping, or with
  ends on different chromosomes, keeps its type. Re-ligation is recognised in one
  direction only, the first end on the fragment before that of the second: a
  re-ligation pair with its ends exchanged is \<^verbatim>\<open>'normal'\<close>.
\<close>

theorem bedpe_type_swap_ends:
  assumes "bedpe_type rest_sites items threshold_span rest_site_len = Inr (ty, frag1, frag2)"
  shows "\<exists>ty_sw. bedpe_type rest_sites (swap_ends items) threshold_span rest_site_len =
                    Inr (ty_sw, frag2, frag1) \<and>
           (ty_sw = ''self-ligation'' \<longleftrightarrow> ty = ''self-ligation'') \<and>
           (ty = ''re-ligation'' \<longrightarrow> ty_sw = ''normal'') \<and>
           (frag1 = None \<longrightarrow> ty_sw = ty) \<and>
           (chr1 items \<noteq> chr2 items \<longrightarrow> ty_sw = ty)"
proof (cases "chr1 items = chr2 items")
  case False
  then show ?thesis
    using assms
    by (auto simp: bedpe_type_def dict_getitem_def swap_ends_simps
             split: if_splits option.splits sum.splits)
next
  case True
  have sp: "\<bar>start2 items - start1 items\<bar> = \<bar>start1 items - start2 items\<bar>" by simp
  show ?thesis
    using assms True
    by (auto simp: bedpe_type_def dict_getitem_def swap_ends_simps sp Let_def
             split: if_splits option.splits sum.splits)
qed

theorem bedpe_type_swap_ends_witness:
  "bedpe_type [''chr1'' \<mapsto> [100, 200, 300]]
     \<lparr>chr1 = ''chr1'', start1 = 120, end1 = 150,
      chr2 = ''chr1'', start2 = 140, end2 = 170, passthrough = []\<rparr> 1000 10 =
   Inr (''self-ligation'', Some (1, CHR ''s''), Some (1, CHR ''e'')) \<and>
   bedpe_type [''chr1'' \<mapsto> [100, 200, 300]]
     (swap_ends \<lparr>chr1 = ''chr1'', start1 = 120, end1 = 150,
      chr2 = ''chr1'', start2 = 140, end2 = 170, passthrough = []\<rparr>) 1000 10 =
   Inr (''self-ligation'', Some (1, CHR ''e''), Some (1, CHR ''s''))"
proof -
  have f1: "find_frag [100, 200, 300] 120 150 10 = Inr (1, CHR ''s'')" by code_simp
  have f2: "find_frag [100, 200, 300] 140 170 10 = Inr (1, CHR ''e'')" by code_simp
  have r: "bedpe_type [''chr1'' \<mapsto> [100, 200, 300]]
     \<lparr>chr1 = ''chr1'', start1 = 120, end1 = 150,
      chr2 = ''chr1'', start2 = 140, end2 = 170, passthrough = []\<rparr> 1000 10 =
   Inr (''self-ligation'', Some (1, CHR ''s''), Some (1, CHR ''e''))"
    by (simp add: bedpe_type_def dict_getitem_def f1 f2)
  from r bedpe_type_swap_ends[OF r] show ?thesis by auto
qed

text \<open>
  Claim C9 as stated fails: a re-ligation pair with its two ends exchanged is
  classified \<^verbatim>\<open>'normal'\<close>, not \<^verbatim>\<open>'re-ligation'\<close>.
\<close>

theorem bedpe_type_swap_ends_counterexample:
  "bedpe_type [''chr1'' \<mapsto> [100, 200, 300]]
     \<lparr>chr1 = ''chr1'', start1 = 170, end1 = 195,
      chr2 = ''chr1'', start2 = 205, end2 = 230, passthrough = []\<rparr> 1000 10 =
   Inr (''re-ligation'', Some (1, CHR ''e''), Some (2, CHR ''s'')) \<and>
   bedpe_type [''chr1'' \<mapsto> [100, 200, 300]]
     (swap_ends \<lparr>chr1 = ''chr1'', start1 = 170, end1 = 195,
      chr2 = ''chr1'', start2 = 205, end2 = 230, passthrough = []\<rparr>) 1000 10 =
   Inr (''normal'', Some (2, CHR ''s''), Some (1, CHR ''e''))"
proof -
  have f1: "find_frag [100, 200, 300] 170 195 10 = Inr (1, CHR ''e'')" by code_simp
  have f2: "find_frag [100, 200, 300] 205 230 10 = Inr (2, CHR ''s'')" by code_simp
  show ?thesis by (simp add: bedpe_type_def dict_getitem_def swap_ends_def f1 f2)
qed

subsection \<open>The worker and unknown chromosomes\<close>

text \<open>
  Claim C7, as amended. Take a record on which the mapping is attempted (ends on
  different chromosomes with \<open>threshold_span = -1\<close>, or ends on one chromosome without
  the distance short-circuit) and on which a lookup of a chromosome fails: the first
  chromosome is absent from the index, or the first end has been mapped and the second
  chromosome is absent. The worker then skips the record: it writes to none of its
  three files, leaves its counts as they are, and logs one warning naming the absent
  chromosome.
\<close>

theorem worker_item_skips_unknown_chromosome:
  assumes "if chr1 items \<noteq> chr2 items then threshold_span = - 1
           else \<not> (\<bar>start1 items - start2 items\<bar> > threshold_span \<and> threshold_span \<noteq> - 1)"
    and "rest_sites (chr1 items) = None \<or>
         (\<exists>sites frag1. rest_sites (chr1 items) = Some sites \<and>
            find_frag sites (start1 items) (end1 items) rest_site_len = Inr frag1 \<and>
            rest_sites (chr2 items) = None)"
  shows "worker_item rest_sites rest_site_len threshold_span st items =
           Inr (st\<lparr>log_warning := log_warning st @
                  [str_KeyError (if rest_sites (chr1 items) = None then chr1 items
                                 else chr2 items)]\<rparr>)"
  using assms
  by (auto simp: worker_item_def bedpe_type_def dict_getitem_def Let_def split: if_splits)

theorem worker_item_skips_unknown_chromosome_witness:
  "worker_item [''chr1'' \<mapsto> [100, 200, 300]] 10 (- 1) worker_init
     \<lparr>chr1 = ''chr1'', start1 = 170, end1 = 195,
      chr2 = ''chrX'', start2 = 205, end2 = 230, passthrough = []\<rparr> =
   Inr \<lparr>output_f = [], err_sel_f = [], err_re_f = [], l_counts = [0, 0, 0],
        log_warning = [[CHR 0x27] @ ''chrX'' @ [CHR 0x27]]\<rparr>"
proof -
  let ?rs = "[''chr1'' \<mapsto> [100, 200, 300::int]]"
  let ?it = "\<lparr>chr1 = ''chr1'', start1 = 170, end1 = 195,
              chr2 = ''chrX'', start2 = 205, end2 = 230, passthrough = []\<rparr>"
  have f1: "find_frag [100, 200, 300] 170 195 10 = Inr (1, CHR ''e'')" by code_simp
  have h1: "if chr1 ?it \<noteq> chr2 ?it then (- 1::int) = - 1
            else \<not> (\<bar>start1 ?it - start2 ?it\<bar> > - 1 \<and> (- 1::int) \<noteq> - 1)"
    by simp
  have h2: "?rs (chr1 ?it) = None \<or>
         (\<exists>sites frag1. ?rs (chr1 ?it) = Some sites \<and>
            find_frag sites (start1 ?it) (end1 ?it) 10 = Inr frag1 \<and>
            ?rs (chr2 ?it) = None)"
    by (simp add: f1)
  from worker_item_skips_unknown_chromosome
         [where items = ?it and rest_sites = ?rs and st = worker_init, OF h1 h2]
  show ?thesis by (simp add: worker_init_def str_KeyError_def)
qed

text \<open>
  Claim C7 as stated fails on the fast path: with \<open>threshold_span = 1000\<close> a record
  whose second chromosome is absent from the index, and differs from the first, is
  never looked up; it is written to the normal output and counted as normal, and no
  warning is logged.
\<close>

theorem worker_item_skips_unknown_chromosome_counterexample:
  "[''chr1'' \<mapsto> [100, 200, 300::int]] ''chrX'' = None \<and>
   worker_item [''chr1'' \<mapsto> [100, 200, 300]] 10 1000 worker_init
     \<lparr>chr1 = ''chr1'', start1 = 170, end1 = 195,
      chr2 = ''chrX'', start2 = 205, end2 = 230, passthrough = []\<rparr> =
   Inr \<lparr>output_f = [''chr1'' @ [CHR 0x09] @ ''170'' @ [CHR 0x09] @ ''195'' @ [CHR 0x09] @
                    ''chrX'' @ [CHR 0x09] @ ''205'' @ [CHR 0x09] @ ''230'' @ [CHR 0x0A]],
        err_sel_f = [], err_re_f = [], l_counts = [1, 0, 0], log_warning = []\<rparr>"
proof -
  have s: "str_int 170 = ''170''" "str_int 195 = ''195''"
          "str_int 205 = ''205''" "str_int 230 = ''230''"
    by code_simp+
  show ?thesis
    by (simp add: worker_item_def bedpe_type_def items_str_def worker_init_def s)
qed

text \<open>
  In the loop over a chunk the skipped record changes nothing but the log, and the
  loop goes on with the next record.
\<close>

lemma worker_chunk_skips_unknown_chromosome:
  assumes "if chr1 items \<noteq> chr2 items then threshold_span = - 1
           else \<not> (\<bar>start1 items - start2 items\<bar> > threshold_span \<and> threshold_span \<noteq> - 1)"
    and "rest_sites (chr1 items) = None"
  shows "worker_chunk rest_sites rest_site_len threshold_span st (items # chunk) =
           worker_chunk rest_sites rest_site_len threshold_span
             (st\<lparr>log_warning := log_warning st @ [str_KeyError (chr1 items)]\<rparr>) chunk"
  using assms
  by (auto simp: worker_item_def bedpe_type_def dict_getitem_def Let_def split: if_splits)

end
